theory Spec2Isabelle
  imports Complex_Main "HOL-Library.Stream"
begin

section \<open>Multi-goal episode generation: a model of \<open>script/generate_multigoal_dataset.py\<close>\<close>

subsection \<open>Floats, errors and the module constants\<close>

text \<open>
  The distance returned by the simulator is a float that may be infinite or NaN, and the
  retry loops compare it with the bucket bounds.  Those special values are kept; rounding
  is not modelled, finite floats are real numbers.  Ratios, bucket bounds, coordinates and
  Euclidean distances are finite and are plain reals.
\<close>

datatype pyfloat = Fin real | PInf | NInf | NaN

text \<open>\<open>a < b\<close> on floats: every comparison with NaN is false.\<close>

fun fless :: "pyfloat \<Rightarrow> pyfloat \<Rightarrow> bool" where
  "fless NaN _ = False"
| "fless _ NaN = False"
| "fless _ NInf = False"
| "fless NInf _ = True"
| "fless PInf _ = False"
| "fless (Fin a) PInf = True"
| "fless (Fin a) (Fin b) = (a < b)"

definition fgreater :: "pyfloat \<Rightarrow> pyfloat \<Rightarrow> bool" where
  "fgreater a b = fless b a"

text \<open>\<open>a <= b\<close> and \<open>a >= b\<close>, which the code never evaluates; they state the acceptance
  conditions the way the specification writes them.\<close>

fun fle :: "pyfloat \<Rightarrow> pyfloat \<Rightarrow> bool" where
  "fle NaN _ = False"
| "fle _ NaN = False"
| "fle NInf _ = True"
| "fle _ PInf = True"
| "fle PInf _ = False"
| "fle (Fin a) NInf = False"
| "fle (Fin a) (Fin b) = (a \<le> b)"

definition fge :: "pyfloat \<Rightarrow> pyfloat \<Rightarrow> bool" where
  "fge a b = fle b a"

text \<open>The distances that stand for "no path": infinite or below zero.\<close>

fun infinite_or_negative :: "pyfloat \<Rightarrow> bool" where
  "infinite_or_negative (Fin x) = (x < 0)"
| "infinite_or_negative PInf = True"
| "infinite_or_negative NInf = True"
| "infinite_or_negative NaN = False"

text \<open>
  \<open>d / euc_d\<close>: the divisor is an element of the array returned by \<open>pdist\<close>, a NumPy
  float64, so the quotient follows IEEE 754 also at zero (a warning, no exception).
\<close>

fun fdiv :: "pyfloat \<Rightarrow> real \<Rightarrow> pyfloat" where
  "fdiv NaN e = NaN"
| "fdiv PInf e = (if e < 0 then NInf else PInf)"
| "fdiv NInf e = (if e < 0 then PInf else NInf)"
| "fdiv (Fin a) e =
     (if e = 0 then (if a = 0 then NaN else if 0 < a then PInf else NInf)
      else Fin (a / e))"

text \<open>\<open>tot_d += d\<close>.\<close>

fun fadd :: "pyfloat \<Rightarrow> pyfloat \<Rightarrow> pyfloat" where
  "fadd NaN _ = NaN"
| "fadd _ NaN = NaN"
| "fadd PInf NInf = NaN"
| "fadd NInf PInf = NaN"
| "fadd PInf _ = PInf"
| "fadd _ PInf = PInf"
| "fadd NInf _ = NInf"
| "fadd _ NInf = NInf"
| "fadd (Fin a) (Fin b) = Fin (a + b)"

text \<open>
  The exceptions the script can raise: the \<open>ValueError\<close> of line 51, the \<open>ValueError\<close>
  of \<open>float()\<close> on a token that is no number, the \<open>ZeroDivisionError\<close> of a float
  division, the \<open>IndexError\<close> of \<open>random.choice\<close> on an empty sequence or of a list
  index out of range, and the \<open>ValueError\<close> of \<open>pdist\<close> on an empty point list.
\<close>

datatype error =
    InvalidDifficultyRatios
  | FloatConversionError
  | ZeroDivisionError
  | IndexError
  | PdistError

definition DIFFICULTIES :: "string list" where
  "DIFFICULTIES = [''very easy'', ''easy'', ''medium'', ''hard'']"

definition DIFFICULTY_BOUNDS :: "real list" where
  "DIFFICULTY_BOUNDS = [1, 3, 7, 13, 20]"

definition MIN_DIST_RATIO :: real where
  "MIN_DIST_RATIO = 11 / 10"

definition MIN_ISLAND_RADIUS :: real where
  "MIN_ISLAND_RADIUS = 3 / 2"

definition EPS :: real where
  "EPS = 1 / 100000"

subsection \<open>\<open>parse_difficulty_ratios\<close>\<close>

text \<open>\<open>int(x)\<close> on a float truncates towards zero.\<close>

definition py_int :: "real \<Rightarrow> int" where
  "py_int x = (if 0 \<le> x then \<lfloor>x\<rfloor> else \<lceil>x\<rceil>)"

text \<open>
  The argument string is given as its comma-separated tokens after \<open>float()\<close>: \<open>Some r\<close>
  for a token that converts to the number \<open>r\<close>, \<open>None\<close> for one that \<open>float()\<close> refuses.
  The dictionary is an association list in insertion order, the order in which \<open>main\<close>
  iterates it.
\<close>

type_synonym difficulty = "string \<times> int \<times> real \<times> real"

definition parse_difficulty_ratios :: "real option list \<Rightarrow> int \<Rightarrow> error + difficulty list" where
  "parse_difficulty_ratios tokens n_episodes =
     (if list_ex (\<lambda>t. t = None) tokens then Inl FloatConversionError
      else
        let ratios = map the tokens in
        if list_ex (\<lambda>r. r < 0) ratios then Inl InvalidDifficultyRatios
        else if length ratios \<noteq> 4 then Inl InvalidDifficultyRatios
        else
          let tot = sum_list ratios in
          if tot = 0 then Inl ZeroDivisionError
          else Inr (map (\<lambda>(k, r, min_d, max_d).
                           (k, py_int (r * real_of_int n_episodes / tot), min_d, max_d))
                        (zip DIFFICULTIES
                          (zip ratios (zip (butlast DIFFICULTY_BOUNDS) (tl DIFFICULTY_BOUNDS))))))"



subsection \<open>The random generator and the simulator\<close>

text \<open>
  The state of Python's global generator (module \<open>random\<close>) is the stream of raw numbers
  it is going to produce.  \<open>random.random()\<close> returns a multiple of \<open>2 ^ -53\<close> in [0, 1);
  \<open>random.choice(seq)\<close> raises \<open>IndexError\<close> on an empty sequence and otherwise returns
  the element at an index below \<open>len(seq)\<close>.
\<close>

type_synonym rng = "nat stream"

definition random_random :: "rng \<Rightarrow> real \<times> rng" where
  "random_random g = (real (shd g mod 2 ^ 53) / 2 ^ 53, stl g)"

definition random_choice :: "'a list \<Rightarrow> rng \<Rightarrow> error + 'a \<times> rng" where
  "random_choice xs g =
     (if xs = [] then Inl IndexError else Inr (xs ! (shd g mod length xs), stl g))"

text \<open>
  The simulator is a black box with the query interface the script uses.  It has a state
  of its own (its generator, which \<open>sim.seed\<close> sets and \<open>sample_navigable_point\<close>
  advances); island radius and geodesic distance are functions of the scene alone.
\<close>

type_synonym point = "real \<times> real \<times> real"

record 's simulator =
  sim_seed :: "int \<Rightarrow> 's \<Rightarrow> 's"
  sample_navigable_point :: "'s \<Rightarrow> point \<times> 's"
  island_radius :: "point \<Rightarrow> real"
  geodesic_distance :: "point \<Rightarrow> point \<Rightarrow> pyfloat"
  agent_position :: "'s \<Rightarrow> point"

subsection \<open>\<open>sample_point\<close> and the point cloud\<close>

text \<open>The \<open>while\<close> loop of \<open>sample_point\<close> (lines 60-61), from the point drawn at line 59.\<close>

partial_function (option) sample_point_loop ::
  "'s simulator \<Rightarrow> real option \<Rightarrow> real \<Rightarrow> point \<Rightarrow> 's \<Rightarrow> (point \<times> 's) option"
where
  "sample_point_loop sim height radius pt s =
     (if island_radius sim pt < radius
         \<or> (case height of None \<Rightarrow> False | Some h \<Rightarrow> EPS < \<bar>fst (snd pt) - h\<bar>)
      then (case sample_navigable_point sim s of
              (pt', s') \<Rightarrow> sample_point_loop sim height radius pt' s')
      else Some (pt, s))"

definition sample_point ::
  "'s simulator \<Rightarrow> real option \<Rightarrow> real \<Rightarrow> 's \<Rightarrow> (point \<times> 's) option"
where
  "sample_point sim height radius s =
     (case sample_navigable_point sim s of
        (pt, s') \<Rightarrow> sample_point_loop sim height radius pt s')"

text \<open>Line 89: \<open>nav_pts = [sample_point(sim, height) for _ in range(n_pts)]\<close>.\<close>

fun sample_points :: "'s simulator \<Rightarrow> real \<Rightarrow> nat \<Rightarrow> 's \<Rightarrow> (point list \<times> 's) option" where
  "sample_points sim height 0 s = Some ([], s)"
| "sample_points sim height (Suc n) s =
     (case sample_point sim (Some height) MIN_ISLAND_RADIUS s of
        None \<Rightarrow> None
      | Some (pt, s') \<Rightarrow>
          (case sample_points sim height n s' of
             None \<Rightarrow> None
           | Some (pts, s'') \<Rightarrow> Some (pt # pts, s'')))"

subsection \<open>Candidate pairs\<close>

text \<open>Line 91: all index pairs \<open>(i, j)\<close> with \<open>i < j < n_pts\<close>, in lexicographic order.\<close>

definition pairs :: "nat \<Rightarrow> (nat \<times> nat) list" where
  "pairs n_pts = concat (map (\<lambda>i. map (\<lambda>j. (i, j)) [i + 1 ..< n_pts]) [0 ..< n_pts - 1])"

definition euclidean :: "point \<Rightarrow> point \<Rightarrow> real" where
  "euclidean p q =
     (case p of (x1, y1, z1) \<Rightarrow> case q of (x2, y2, z2) \<Rightarrow>
        sqrt ((x1 - x2)\<^sup>2 + (y1 - y2)\<^sup>2 + (z1 - z2)\<^sup>2))"

text \<open>
  Line 92: SciPy's \<open>pdist\<close> returns the Euclidean distances of all pairs in the order of
  \<open>pairs\<close>, and raises \<open>ValueError\<close> on an empty list of points.
\<close>

definition pairwise_distance :: "point list \<Rightarrow> error + real list" where
  "pairwise_distance pts =
     (if pts = [] then Inl PdistError
      else Inr (map (\<lambda>(i, j). euclidean (pts ! i) (pts ! j)) (pairs (length pts))))"

type_synonym candidate = "(nat \<times> nat) \<times> real"

text \<open>Lines 98-99: the pre-filter of a bucket.\<close>

definition candidates_of :: "(nat \<times> nat) list \<Rightarrow> real list \<Rightarrow> real \<Rightarrow> real \<Rightarrow> candidate list" where
  "candidates_of prs euc_dists min_d max_d =
     filter (\<lambda>(p, euc_d). 8 / 10 * min_d \<le> euc_d \<and> euc_d \<le> 12 / 10 * max_d) (zip prs euc_dists)"

text \<open>Lines 113-114: the candidates that continue from the point with index \<open>last\<close>.\<close>

definition nxt_candidates_of :: "candidate list \<Rightarrow> nat \<Rightarrow> (nat \<times> real) list" where
  "nxt_candidates_of candidates lst =
     map (\<lambda>((i, j), euc_d). (j, euc_d)) (filter (\<lambda>((i, j), euc_d). i = lst) candidates)
     @ map (\<lambda>((i, j), euc_d). (i, euc_d)) (filter (\<lambda>((i, j), euc_d). j = lst) candidates)"

subsection \<open>The rejection-sampling loops\<close>

text \<open>
  The loop condition of lines 103 and 116 once \<open>d\<close> is a float:
  \<open>d < min_d or d > max_d or d / euc_d < MIN_DIST_RATIO\<close>.
\<close>

definition reject :: "pyfloat \<Rightarrow> real \<Rightarrow> real \<Rightarrow> real \<Rightarrow> bool" where
  "reject d min_d max_d euc_d =
     (fless d (Fin min_d) \<or> fgreater d (Fin max_d) \<or> fless (fdiv d euc_d) (Fin MIN_DIST_RATIO))"

text \<open>
  Lines 102-107.  \<open>d = None\<close> forces the first pass through the body, so the loop is a
  do-while: draw, measure, and repeat while the condition holds.  It has no retry limit:
  \<open>None\<close> is a run that never leaves the loop.
\<close>

partial_function (option) first_leg ::
  "'s simulator \<Rightarrow> point list \<Rightarrow> candidate list \<Rightarrow> real \<Rightarrow> real \<Rightarrow> rng
    \<Rightarrow> (error + (nat \<times> nat \<times> real \<times> point \<times> point \<times> pyfloat) \<times> rng) option"
where
  "first_leg sim nav_pts candidates min_d max_d g =
     (case random_choice candidates g of
        Inl e \<Rightarrow> Some (Inl e)
      | Inr (((i, j), euc_d), g') \<Rightarrow>
          if length nav_pts \<le> i then Some (Inl IndexError)
          else if length nav_pts \<le> j then Some (Inl IndexError)
          else
            let src = nav_pts ! i; dst = nav_pts ! j; d = geodesic_distance sim src dst in
            if reject d min_d max_d euc_d
            then first_leg sim nav_pts candidates min_d max_d g'
            else Some (Inr ((i, j, euc_d, src, dst, d), g')))"

text \<open>Lines 115-120, the same loop over \<open>nxt_candidates\<close>, from the point with index \<open>last\<close>.\<close>

partial_function (option) next_leg ::
  "'s simulator \<Rightarrow> point list \<Rightarrow> (nat \<times> real) list \<Rightarrow> real \<Rightarrow> real \<Rightarrow> nat \<Rightarrow> rng
    \<Rightarrow> (error + (nat \<times> real \<times> point \<times> point \<times> pyfloat) \<times> rng) option"
where
  "next_leg sim nav_pts nxt_candidates min_d max_d lst g =
     (case random_choice nxt_candidates g of
        Inl e \<Rightarrow> Some (Inl e)
      | Inr ((j, euc_d), g') \<Rightarrow>
          if length nav_pts \<le> lst then Some (Inl IndexError)
          else if length nav_pts \<le> j then Some (Inl IndexError)
          else
            let src = nav_pts ! lst; dst = nav_pts ! j; d = geodesic_distance sim src dst in
            if reject d min_d max_d euc_d
            then next_leg sim nav_pts nxt_candidates min_d max_d lst g'
            else Some (Inr ((j, euc_d, src, dst, d), g')))"

subsection \<open>One episode: the first leg and the chained legs\<close>

text \<open>
  The local variables of \<open>main\<close> that the legs of an episode assign (the index \<open>i\<close> is
  not read after line 105 and is left out).
\<close>

record frame =
  v_j :: nat
  v_euc_d :: real
  v_src :: point
  v_dst :: point
  v_d :: pyfloat
  v_last :: nat
  v_destinations :: "point list"
  v_tot_d :: pyfloat

text \<open>Lines 113-123: one pass through the body of \<open>for _ in range(args.n_goals_per_ep - 1)\<close>.\<close>

definition chain_step ::
  "'s simulator \<Rightarrow> point list \<Rightarrow> candidate list \<Rightarrow> real \<Rightarrow> real \<Rightarrow> frame \<Rightarrow> rng
    \<Rightarrow> (error + frame \<times> rng) option"
where
  "chain_step sim nav_pts candidates min_d max_d v g =
     (case next_leg sim nav_pts (nxt_candidates_of candidates (v_last v)) min_d max_d (v_last v) g of
        None \<Rightarrow> None
      | Some (Inl e) \<Rightarrow> Some (Inl e)
      | Some (Inr ((j, euc_d, src, dst, d), g')) \<Rightarrow>
          Some (Inr (v\<lparr>v_j := j, v_euc_d := euc_d, v_src := src, v_dst := dst, v_d := d,
                       v_last := j, v_destinations := v_destinations v @ [dst],
                       v_tot_d := fadd (v_tot_d v) d\<rparr>, g')))"

fun chain ::
  "'s simulator \<Rightarrow> point list \<Rightarrow> candidate list \<Rightarrow> real \<Rightarrow> real \<Rightarrow> nat \<Rightarrow> frame \<Rightarrow> rng
    \<Rightarrow> (error + frame \<times> rng) option"
where
  "chain sim nav_pts candidates min_d max_d 0 v g = Some (Inr (v, g))"
| "chain sim nav_pts candidates min_d max_d (Suc n) v g =
     (case chain_step sim nav_pts candidates min_d max_d v g of
        None \<Rightarrow> None
      | Some (Inl e) \<Rightarrow> Some (Inl e)
      | Some (Inr (v', g')) \<Rightarrow> chain sim nav_pts candidates min_d max_d n v' g')"

text \<open>
  Lines 102-123: the first leg, lines 108-110, and \<open>n_goals_per_ep - 1\<close> chained legs
  (none when \<open>n_goals_per_ep\<close> is below 2, as \<open>range\<close> of a number below 1 is empty).
\<close>

definition episode_legs ::
  "'s simulator \<Rightarrow> point list \<Rightarrow> candidate list \<Rightarrow> real \<Rightarrow> real \<Rightarrow> int \<Rightarrow> rng
    \<Rightarrow> (error + frame \<times> rng) option"
where
  "episode_legs sim nav_pts candidates min_d max_d n_goals_per_ep g =
     (case first_leg sim nav_pts candidates min_d max_d g of
        None \<Rightarrow> None
      | Some (Inl e) \<Rightarrow> Some (Inl e)
      | Some (Inr ((i, j, euc_d, src, dst, d), g')) \<Rightarrow>
          chain sim nav_pts candidates min_d max_d (nat (n_goals_per_ep - 1))
            \<lparr>v_j = j, v_euc_d = euc_d, v_src = src, v_dst = dst, v_d = d,
             v_last = j, v_destinations = [dst], v_tot_d = d\<rparr> g')"

subsection \<open>\<open>make_episode\<close>\<close>

record navigation_goal =
  position :: point
  radius :: real

record navigation_episode =
  episode_id :: string
  scene_id :: string
  start_position :: point
  start_rotation :: "real list"
  goals :: "navigation_goal list"
  info_difficulty :: string
  info_geodesic_distance :: pyfloat

text \<open>
  Lines 66-72: the value bound to the local variable \<open>episode\<close>, and the generator after
  the draw of line 66.
\<close>

definition make_episode_local ::
  "string \<Rightarrow> string \<Rightarrow> point \<Rightarrow> point list \<Rightarrow> real \<Rightarrow> string \<Rightarrow> pyfloat \<Rightarrow> rng
    \<Rightarrow> navigation_episode \<times> rng"
where
  "make_episode_local ep_id scene src destinations success_dist difficulty geo_dist g =
     (case random_random g of
        (u, g') \<Rightarrow>
          let a = 2 * pi * u;
              q = [0, sin (a / 2), 0, cos (a / 2)];
              gs = map (\<lambda>dst. \<lparr>position = dst, radius = success_dist\<rparr>) destinations
          in (\<lparr>episode_id = ep_id, scene_id = scene, start_position = src,
                start_rotation = q, goals = gs, info_difficulty = difficulty,
                info_geodesic_distance = geo_dist\<rparr>, g'))"

text \<open>
  The function body ends at line 72 with the assignment to \<open>episode\<close>: there is no
  \<open>return\<close>, so the call evaluates to Python's \<open>None\<close>.
\<close>

definition make_episode ::
  "string \<Rightarrow> string \<Rightarrow> point \<Rightarrow> point list \<Rightarrow> real \<Rightarrow> string \<Rightarrow> pyfloat \<Rightarrow> rng
    \<Rightarrow> navigation_episode option \<times> rng"
where
  "make_episode ep_id scene src destinations success_dist difficulty geo_dist g =
     (case make_episode_local ep_id scene src destinations success_dist difficulty geo_dist g of
        (episode, g') \<Rightarrow> (None, g'))"

subsection \<open>\<open>main\<close>\<close>

text \<open>\<open>str(n)\<close> for a natural number.\<close>

fun py_str :: "nat \<Rightarrow> string" where
  "py_str n =
     (if n < 10 then [char_of (48 + n)] else py_str (n div 10) @ [char_of (48 + n mod 10)])"

declare py_str.simps [simp del]

record config =
  SCENE :: string
  SUCCESS_DISTANCE :: real

text \<open>
  Lines 101-129, the loop \<open>for ep in range(n_ep)\<close> of the bucket \<open>k\<close>: the state is
  \<open>tot_cnt\<close>, \<open>dataset.episodes\<close> and the generator.
\<close>

fun episodes_loop ::
  "config \<Rightarrow> 's simulator \<Rightarrow> point list \<Rightarrow> candidate list \<Rightarrow> string \<Rightarrow> real \<Rightarrow> real \<Rightarrow> int
    \<Rightarrow> nat \<Rightarrow> nat \<times> navigation_episode option list \<Rightarrow> rng
    \<Rightarrow> (error + (nat \<times> navigation_episode option list) \<times> rng) option"
where
  "episodes_loop cfg sim nav_pts candidates k min_d max_d n_goals_per_ep 0 st g =
     Some (Inr (st, g))"
| "episodes_loop cfg sim nav_pts candidates k min_d max_d n_goals_per_ep (Suc n) st g =
     (case episode_legs sim nav_pts candidates min_d max_d n_goals_per_ep g of
        None \<Rightarrow> None
      | Some (Inl e) \<Rightarrow> Some (Inl e)
      | Some (Inr (v, g')) \<Rightarrow>
          (case make_episode (py_str (fst st)) (SCENE cfg) (v_src v) (v_destinations v)
                  (SUCCESS_DISTANCE cfg) k (v_tot_d v) g' of
             (episode, g'') \<Rightarrow>
               episodes_loop cfg sim nav_pts candidates k min_d max_d n_goals_per_ep n
                 (fst st + 1, snd st @ [episode]) g''))"

text \<open>Lines 96-129, the loop over \<open>difficulties.items()\<close>.\<close>

fun buckets_loop ::
  "config \<Rightarrow> 's simulator \<Rightarrow> point list \<Rightarrow> (nat \<times> nat) list \<Rightarrow> real list \<Rightarrow> int
    \<Rightarrow> difficulty list \<Rightarrow> nat \<times> navigation_episode option list \<Rightarrow> rng
    \<Rightarrow> (error + (nat \<times> navigation_episode option list) \<times> rng) option"
where
  "buckets_loop cfg sim nav_pts prs euc_dists n_goals_per_ep [] st g = Some (Inr (st, g))"
| "buckets_loop cfg sim nav_pts prs euc_dists n_goals_per_ep ((k, n_ep, min_d, max_d) # rest) st g =
     (case episodes_loop cfg sim nav_pts (candidates_of prs euc_dists min_d max_d) k min_d max_d
             n_goals_per_ep (nat n_ep) st g of
        None \<Rightarrow> None
      | Some (Inl e) \<Rightarrow> Some (Inl e)
      | Some (Inr (st', g')) \<Rightarrow>
          buckets_loop cfg sim nav_pts prs euc_dists n_goals_per_ep rest st' g')"

record args =
  n_episodes :: int
  n_goals_per_ep :: int
  difficulty_ratios :: "real option list"
  seed :: int

text \<open>
  Lines 80-92: the ratios are parsed before the simulator is made; \<open>args.seed\<close> goes to
  \<open>sim.seed\<close> and nowhere else; then the point cloud, the pairs and their distances.
  \<open>s\<close> is the state of the simulator when it is made.
\<close>

definition prepare ::
  "args \<Rightarrow> 's simulator \<Rightarrow> 's
    \<Rightarrow> (error + difficulty list \<times> point list \<times> (nat \<times> nat) list \<times> real list) option"
where
  "prepare a sim s =
     (case parse_difficulty_ratios (difficulty_ratios a) (n_episodes a) of
        Inl e \<Rightarrow> Some (Inl e)
      | Inr difficulties \<Rightarrow>
          let height = fst (snd (agent_position sim s));
              s1 = sim_seed sim (seed a) s;
              n_pts = (n_goals_per_ep a + 1) * n_episodes a
          in (case sample_points sim height (nat n_pts) s1 of
                None \<Rightarrow> None
              | Some (nav_pts, s2) \<Rightarrow>
                  (case pairwise_distance nav_pts of
                     Inl e \<Rightarrow> Some (Inl e)
                   | Inr euc_dists \<Rightarrow>
                       Some (Inr (difficulties, nav_pts, pairs (nat n_pts), euc_dists)))))"

text \<open>
  \<open>main\<close>: the result is the list \<open>dataset.episodes\<close> that lines 131-132 serialise.
  \<open>g\<close> is the state of Python's global generator when \<open>main\<close> starts.  Loading the
  configuration, creating the output directory (lines 76-78), the progress bar and the
  write of the file are input and output around this computation and are left out.
\<close>

definition main ::
  "args \<Rightarrow> config \<Rightarrow> 's simulator \<Rightarrow> 's \<Rightarrow> rng \<Rightarrow> (error + navigation_episode option list) option"
where
  "main a cfg sim s g =
     (case prepare a sim s of
        None \<Rightarrow> None
      | Some (Inl e) \<Rightarrow> Some (Inl e)
      | Some (Inr (difficulties, nav_pts, prs, euc_dists)) \<Rightarrow>
          (case buckets_loop cfg sim nav_pts prs euc_dists (n_goals_per_ep a) difficulties (0, []) g of
             None \<Rightarrow> None
           | Some (Inl e) \<Rightarrow> Some (Inl e)
           | Some (Inr (st, g')) \<Rightarrow> Some (Inr (snd st))))"

text \<open>
  What holds of the frame after every leg: there is a destination, \<open>dst\<close> is the last
  one, and it is the point with index \<open>last\<close>.
\<close>

definition frame_inv :: "point list \<Rightarrow> frame \<Rightarrow> bool" where
  "frame_inv nav_pts v \<longleftrightarrow>
     v_destinations v \<noteq> [] \<and> v_dst v = last (v_destinations v) \<and> v_dst v = nav_pts ! v_last v"

subsection \<open>A small scene for concrete runs\<close>

text \<open>
  A corridor along the x axis: the simulator's state counts the points it has handed out,
  the \<open>n\<close>-th sampled point is \<open>(2 n, 0, 0)\<close>, seeding resets the count, every point lies
  on a large island at height 0, and the shortest path between two points is a fifth longer
  than the straight line.  \<open>nan_sim\<close> is the same scene with a path finder that answers NaN.
\<close>

definition line_sim :: "nat simulator" where
  "line_sim =
     \<lparr>sim_seed = (\<lambda>n s. 0),
      sample_navigable_point = (\<lambda>s. ((2 * real s, 0, 0), s + 1)),
      island_radius = (\<lambda>p. 2),
      geodesic_distance = (\<lambda>p q. Fin (12 / 10 * \<bar>fst p - fst q\<bar>)),
      agent_position = (\<lambda>s. (0, 0, 0))\<rparr>"

definition nan_sim :: "nat simulator" where
  "nan_sim = line_sim\<lparr>geodesic_distance := (\<lambda>p q. NaN)\<rparr>"

definition line_pts :: "point list" where
  "line_pts = [(0, 0, 0), (2, 0, 0), (4, 0, 0)]"

definition line_candidates :: "candidate list" where
  "line_candidates = [((0, 1), 2), ((1, 2), 2)]"

text \<open>
  The frames of the run that always draws index 0 in that scene: after the first leg
  (from point 0 to point 1) and after one chained leg (from point 1 to point 2).
\<close>

definition line_frame1 :: frame where
  "line_frame1 =
     \<lparr>v_j = 1, v_euc_d = 2, v_src = (0, 0, 0), v_dst = (2, 0, 0), v_d = Fin (12 / 5),
      v_last = 1, v_destinations = [(2, 0, 0)], v_tot_d = Fin (12 / 5)\<rparr>"

definition line_frame2 :: frame where
  "line_frame2 =
     \<lparr>v_j = 2, v_euc_d = 2, v_src = (2, 0, 0), v_dst = (4, 0, 0), v_d = Fin (12 / 5),
      v_last = 2, v_destinations = [(2, 0, 0), (4, 0, 0)], v_tot_d = Fin (24 / 5)\<rparr>"

text \<open>The same run with two goals when every distance is NaN.\<close>

definition nan_frame2 :: frame where
  "nan_frame2 =
     \<lparr>v_j = 2, v_euc_d = 2, v_src = (2, 0, 0), v_dst = (4, 0, 0), v_d = NaN,
      v_last = 2, v_destinations = [(2, 0, 0), (4, 0, 0)], v_tot_d = NaN\<rparr>"

text \<open>The buckets of the default ratios with 300 episodes.\<close>

definition default_difficulties :: "difficulty list" where
  "default_difficulties =
     [(''very easy'', 150, 1, 3), (''easy'', 45, 3, 7), (''medium'', 60, 7, 13), (''hard'', 45, 13, 20)]"

text \<open>
  The corridor with a wall next to its first point: no path leads to or from the point
  at \<open>x = 0\<close>, and the path finder answers \<open>+inf\<close> there.
\<close>

definition wall_sim :: "nat simulator" where
  "wall_sim =
     line_sim\<lparr>geodesic_distance :=
       (\<lambda>p q. if fst p = 0 \<or> fst q = 0 then PInf else Fin (12 / 10 * \<bar>fst p - fst q\<bar>))\<rparr>"

text \<open>
  A run of the script in the corridor: one episode of two goals, all of it in the first
  bucket, seed 42.  \<open>back_frame2\<close> is the frame of the two legs of the run that always
  draws index 1: from point 1 to point 2 and back.
\<close>

definition demo_args :: args where
  "demo_args =
     \<lparr>n_episodes = 1, n_goals_per_ep = 2,
      difficulty_ratios = [Some 1, Some 0, Some 0, Some 0], seed = 42\<rparr>"

definition demo_cfg :: config where
  "demo_cfg = \<lparr>SCENE = ''scene'', SUCCESS_DISTANCE = 1 / 5\<rparr>"

definition demo_difficulties :: "difficulty list" where
  "demo_difficulties =
     [(''very easy'', 1, 1, 3), (''easy'', 0, 3, 7), (''medium'', 0, 7, 13), (''hard'', 0, 13, 20)]"

definition back_frame2 :: frame where
  "back_frame2 =
     \<lparr>v_j = 1, v_euc_d = 2, v_src = (4, 0, 0), v_dst = (2, 0, 0), v_d = Fin (12 / 5),
      v_last = 1, v_destinations = [(4, 0, 0), (2, 0, 0)], v_tot_d = Fin (24 / 5)\<rparr>"

section \<open>Properties\<close>

subsection \<open>What a leg that leaves a retry loop satisfies\<close>

lemma random_choice_mem: "random_choice xs g = Inr (x, g') \<Longrightarrow> x \<in> set xs"
  by (auto simp: random_choice_def split: if_splits)

lemma first_leg_post_aux:
  assumes "first_leg sim nav_pts candidates min_d max_d g = Some r"
  shows "\<forall>i j euc_d src dst d g'. r = Inr ((i, j, euc_d, src, dst, d), g') \<longrightarrow>
     ((i, j), euc_d) \<in> set candidates \<and> i < length nav_pts \<and> j < length nav_pts
     \<and> src = nav_pts ! i \<and> dst = nav_pts ! j \<and> d = geodesic_distance sim src dst
     \<and> \<not> reject d min_d max_d euc_d"
  using assms
proof (induction rule: first_leg.raw_induct [rotated, consumes 1, case_names step])
  case (step first_leg' sim nav_pts candidates min_d max_d g r)
  show ?case
  proof (cases "random_choice candidates g")
    case (Inl e)
    with step(2) show ?thesis by auto
  next
    case (Inr cg)
    obtain i j euc_d g0 where cg: "cg = (((i, j), euc_d), g0)"
      by (metis prod.exhaust)
    have mem: "((i, j), euc_d) \<in> set candidates"
      using Inr cg random_choice_mem by fastforce
    show ?thesis
    proof (cases "reject (geodesic_distance sim (nav_pts ! i) (nav_pts ! j)) min_d max_d euc_d")
      case True
      with step(2) Inr cg have "r = Inl IndexError \<or> first_leg' sim nav_pts candidates min_d max_d g0 = Some r"
        by (auto simp: Let_def split: if_splits)
      then show ?thesis using step(1) by auto
    next
      case False
      with step(2) Inr cg mem show ?thesis
        by (auto simp: Let_def split: if_splits)
    qed
  qed
qed


lemma nxt_candidates_mem:
  "(j, e) \<in> set (nxt_candidates_of candidates lst) \<Longrightarrow>
     ((lst, j), e) \<in> set candidates \<or> ((j, lst), e) \<in> set candidates"
  by (auto simp: nxt_candidates_of_def)

lemma first_leg_post:
  assumes "first_leg sim nav_pts candidates min_d max_d g = Some (Inr ((i, j, euc_d, src, dst, d), g'))"
  shows "((i, j), euc_d) \<in> set candidates" "i < length nav_pts" "j < length nav_pts"
    "src = nav_pts ! i" "dst = nav_pts ! j" "d = geodesic_distance sim src dst"
    "\<not> reject d min_d max_d euc_d"
  using first_leg_post_aux [OF assms] by blast+

lemma next_leg_post_aux:
  assumes "next_leg sim nav_pts nxt min_d max_d lst g = Some r"
  shows "\<forall>j euc_d src dst d g'. r = Inr ((j, euc_d, src, dst, d), g') \<longrightarrow>
     (j, euc_d) \<in> set nxt \<and> lst < length nav_pts \<and> j < length nav_pts
     \<and> src = nav_pts ! lst \<and> dst = nav_pts ! j \<and> d = geodesic_distance sim src dst
     \<and> \<not> reject d min_d max_d euc_d"
  using assms
proof (induction rule: next_leg.raw_induct [rotated, consumes 1, case_names step])
  case (step next_leg' sim nav_pts nxt min_d max_d lst g r)
  show ?case
  proof (cases "random_choice nxt g")
    case (Inl e)
    with step(2) show ?thesis by auto
  next
    case (Inr cg)
    obtain j euc_d g0 where cg: "cg = ((j, euc_d), g0)"
      by (metis prod.exhaust)
    have mem: "(j, euc_d) \<in> set nxt"
      using Inr cg random_choice_mem by fastforce
    show ?thesis
    proof (cases "reject (geodesic_distance sim (nav_pts ! lst) (nav_pts ! j)) min_d max_d euc_d")
      case True
      with step(2) Inr cg have "r = Inl IndexError \<or> next_leg' sim nav_pts nxt min_d max_d lst g0 = Some r"
        by (auto simp: Let_def split: if_splits)
      then show ?thesis using step(1) by auto
    next
      case False
      with step(2) Inr cg mem show ?thesis
        by (auto simp: Let_def split: if_splits)
    qed
  qed
qed

lemma next_leg_post:
  assumes "next_leg sim nav_pts nxt min_d max_d lst g = Some (Inr ((j, euc_d, src, dst, d), g'))"
  shows "(j, euc_d) \<in> set nxt" "lst < length nav_pts" "j < length nav_pts"
    "src = nav_pts ! lst" "dst = nav_pts ! j" "d = geodesic_distance sim src dst"
    "\<not> reject d min_d max_d euc_d"
  using next_leg_post_aux [OF assms] by blast+

lemma chain_step_post:
  assumes "chain_step sim nav_pts candidates min_d max_d v g = Some (Inr (v', g'))"
  shows "v_src v' = nav_pts ! v_last v"
    and "v_dst v' = nav_pts ! v_last v'"
    and "v_j v' = v_last v'"
    and "v_destinations v' = v_destinations v @ [v_dst v']"
    and "v_tot_d v' = fadd (v_tot_d v) (v_d v')"
    and "v_d v' = geodesic_distance sim (v_src v') (v_dst v')"
    and "\<not> reject (v_d v') min_d max_d (v_euc_d v')"
    and "((v_last v, v_last v'), v_euc_d v') \<in> set candidates
          \<or> ((v_last v', v_last v), v_euc_d v') \<in> set candidates"
proof -
  from assms obtain j euc_d src dst d where
    nl: "next_leg sim nav_pts (nxt_candidates_of candidates (v_last v)) min_d max_d (v_last v) g
           = Some (Inr ((j, euc_d, src, dst, d), g'))"
    and v': "v' = v\<lparr>v_j := j, v_euc_d := euc_d, v_src := src, v_dst := dst, v_d := d,
                     v_last := j, v_destinations := v_destinations v @ [dst],
                     v_tot_d := fadd (v_tot_d v) d\<rparr>"
    by (auto simp: chain_step_def split: option.splits sum.splits)
  note p = next_leg_post [OF nl]
  show "v_src v' = nav_pts ! v_last v" using p v' by simp
  show "v_dst v' = nav_pts ! v_last v'" using p v' by simp
  show "v_j v' = v_last v'" using v' by simp
  show "v_destinations v' = v_destinations v @ [v_dst v']" using v' by simp
  show "v_tot_d v' = fadd (v_tot_d v) (v_d v')" using v' by simp
  show "v_d v' = geodesic_distance sim (v_src v') (v_dst v')" using p v' by simp
  show "\<not> reject (v_d v') min_d max_d (v_euc_d v')" using p v' by simp
  show "((v_last v, v_last v'), v_euc_d v') \<in> set candidates
          \<or> ((v_last v', v_last v), v_euc_d v') \<in> set candidates"
    using nxt_candidates_mem [OF p(1)] v' by simp
qed

subsection \<open>The chain of legs of an episode\<close>

lemma chain_snoc:
  "chain sim nav_pts candidates min_d max_d (Suc n) v g =
     (case chain sim nav_pts candidates min_d max_d n v g of
        None \<Rightarrow> None
      | Some (Inl e) \<Rightarrow> Some (Inl e)
      | Some (Inr (v', g')) \<Rightarrow> chain_step sim nav_pts candidates min_d max_d v' g')"
proof (induction n arbitrary: v g)
  case 0
  show ?case by (simp split: option.splits sum.splits)
next
  case (Suc n)
  show ?case
  proof (cases "chain_step sim nav_pts candidates min_d max_d v g")
    case None
    then show ?thesis by simp
  next
    case (Some r)
    show ?thesis
    proof (cases r)
      case (Inl e)
      with Some show ?thesis by simp
    next
      case (Inr p)
      obtain v' g' where p: "p = (v', g')" by (cases p)
      have a: "chain sim nav_pts candidates min_d max_d (Suc (Suc n)) v g
                 = chain sim nav_pts candidates min_d max_d (Suc n) v' g'"
        using Some Inr p by simp
      have b: "chain sim nav_pts candidates min_d max_d (Suc n) v g
                 = chain sim nav_pts candidates min_d max_d n v' g'"
        using Some Inr p by simp
      show ?thesis
        by (simp only: a b Suc.IH [of v' g'])
    qed
  qed
qed

lemma chain_step_inv:
  assumes "chain_step sim nav_pts candidates min_d max_d v g = Some (Inr (v', g'))"
  shows "frame_inv nav_pts v'"
  using chain_step_post(2,4) [OF assms] by (simp add: frame_inv_def)

lemma chain_inv:
  "chain sim nav_pts candidates min_d max_d n v g = Some (Inr (v', g')) \<Longrightarrow>
   frame_inv nav_pts v \<Longrightarrow> frame_inv nav_pts v'"
proof (induction n arbitrary: v g)
  case 0
  then show ?case by simp
next
  case (Suc n)
  from Suc.prems(1) obtain v1 g1 where
    s: "chain_step sim nav_pts candidates min_d max_d v g = Some (Inr (v1, g1))"
    and c: "chain sim nav_pts candidates min_d max_d n v1 g1 = Some (Inr (v', g'))"
    by (auto split: option.splits sum.splits)
  show ?case using Suc.IH [OF c chain_step_inv [OF s]] .
qed

lemma chain_length:
  "chain sim nav_pts candidates min_d max_d n v g = Some (Inr (v', g')) \<Longrightarrow>
   length (v_destinations v') = length (v_destinations v) + n"
proof (induction n arbitrary: v g)
  case 0
  then show ?case by simp
next
  case (Suc n)
  from Suc.prems(1) obtain v1 g1 where
    s: "chain_step sim nav_pts candidates min_d max_d v g = Some (Inr (v1, g1))"
    and c: "chain sim nav_pts candidates min_d max_d n v1 g1 = Some (Inr (v', g'))"
    by (auto split: option.splits sum.splits)
  show ?case using Suc.IH [OF c] chain_step_post(4) [OF s] by simp
qed


lemma first_frame_inv:
  assumes "first_leg sim nav_pts candidates min_d max_d g = Some (Inr ((i, j, euc_d, src, dst, d), g'))"
  shows "frame_inv nav_pts \<lparr>v_j = j, v_euc_d = euc_d, v_src = src, v_dst = dst, v_d = d,
             v_last = j, v_destinations = [dst], v_tot_d = d\<rparr>"
  using first_leg_post(5) [OF assms] by (simp add: frame_inv_def)

lemma episode_legs_cases:
  assumes "episode_legs sim nav_pts candidates min_d max_d n g = Some (Inr (v, g'))"
  obtains i j euc_d src dst d g0 where
    "first_leg sim nav_pts candidates min_d max_d g = Some (Inr ((i, j, euc_d, src, dst, d), g0))"
    "chain sim nav_pts candidates min_d max_d (nat (n - 1))
       \<lparr>v_j = j, v_euc_d = euc_d, v_src = src, v_dst = dst, v_d = d,
        v_last = j, v_destinations = [dst], v_tot_d = d\<rparr> g0 = Some (Inr (v, g'))"
  using assms by (auto simp: episode_legs_def split: option.splits sum.splits)

lemma episode_legs_inv:
  assumes "episode_legs sim nav_pts candidates min_d max_d n g = Some (Inr (v, g'))"
  shows "frame_inv nav_pts v"
proof -
  from assms obtain i j euc_d src dst d g0 where
    f: "first_leg sim nav_pts candidates min_d max_d g = Some (Inr ((i, j, euc_d, src, dst, d), g0))"
    and c: "chain sim nav_pts candidates min_d max_d (nat (n - 1))
       \<lparr>v_j = j, v_euc_d = euc_d, v_src = src, v_dst = dst, v_d = d,
        v_last = j, v_destinations = [dst], v_tot_d = d\<rparr> g0 = Some (Inr (v, g'))"
    by (rule episode_legs_cases)
  show ?thesis using chain_inv [OF c first_frame_inv [OF f]] .
qed

lemma episode_legs_length:
  assumes "episode_legs sim nav_pts candidates min_d max_d n g = Some (Inr (v, g'))"
  shows "length (v_destinations v) = Suc (nat (n - 1))"
proof -
  from assms obtain i j euc_d src dst d g0 where
    c: "chain sim nav_pts candidates min_d max_d (nat (n - 1))
       \<lparr>v_j = j, v_euc_d = euc_d, v_src = src, v_dst = dst, v_d = d,
        v_last = j, v_destinations = [dst], v_tot_d = d\<rparr> g0 = Some (Inr (v, g'))"
    by (rule episode_legs_cases)
  show ?thesis using chain_length [OF c] by simp
qed

lemma episode_legs_Suc:
  assumes "1 \<le> n"
  shows "episode_legs sim nav_pts candidates min_d max_d (n + 1) g =
     (case episode_legs sim nav_pts candidates min_d max_d n g of
        None \<Rightarrow> None
      | Some (Inl e) \<Rightarrow> Some (Inl e)
      | Some (Inr (v, g')) \<Rightarrow> chain_step sim nav_pts candidates min_d max_d v g')"
proof -
  have n2: "nat (n + 1 - 1) = Suc (nat (n - 1))" using assms by simp
  show ?thesis
  proof (cases "first_leg sim nav_pts candidates min_d max_d g")
    case None
    then show ?thesis by (simp add: episode_legs_def)
  next
    case (Some r)
    show ?thesis
    proof (cases r)
      case (Inl e)
      with Some show ?thesis by (simp add: episode_legs_def)
    next
      case (Inr p)
      obtain i j euc_d src dst d g0 where p: "p = ((i, j, euc_d, src, dst, d), g0)"
        by (metis prod.exhaust)
      show ?thesis
        unfolding episode_legs_def n2 Some Inr p
        by (simp only: chain_snoc option.case sum.case prod.case)
    qed
  qed
qed

lemma frame_invD:
  assumes "frame_inv nav_pts v"
  shows "v_destinations v \<noteq> []" "v_dst v = last (v_destinations v)"
    "v_dst v = nav_pts ! v_last v"
  using assms unfolding frame_inv_def by blast+

subsection \<open>Runs in the small scene\<close>

lemmas line_eval =
  random_choice_def reject_def fgreater_def MIN_DIST_RATIO_def line_sim_def line_pts_def
  line_candidates_def nxt_candidates_of_def

lemma first_leg_line:
  "first_leg line_sim line_pts line_candidates 1 3 (sconst 0)
     = Some (Inr ((0, 1, 2, (0, 0, 0), (2, 0, 0), Fin (12 / 5)), sconst 0))"
  by (simp add: first_leg.simps line_eval)

lemma episode_legs_line_0:
  "episode_legs line_sim line_pts line_candidates 1 3 0 (sconst 0) = Some (Inr (line_frame1, sconst 0))"
  by (simp add: episode_legs_def first_leg_line line_frame1_def)

lemma episode_legs_line_1:
  "episode_legs line_sim line_pts line_candidates 1 3 1 (sconst 0) = Some (Inr (line_frame1, sconst 0))"
  by (simp add: episode_legs_def first_leg_line line_frame1_def)

lemma chain_step_line_1:
  "chain_step line_sim line_pts line_candidates 1 3 line_frame1 (sconst 0)
     = Some (Inr (line_frame2, sconst 0))"
  by (simp add: chain_step_def next_leg.simps line_eval line_frame1_def line_frame2_def)

lemma episode_legs_line_2:
  "episode_legs line_sim line_pts line_candidates 1 3 2 (sconst 0) = Some (Inr (line_frame2, sconst 0))"
  using episode_legs_Suc [of 1 line_sim line_pts line_candidates 1 3 "sconst 0"]
  by (simp add: episode_legs_line_1 chain_step_line_1)

lemma parse_default:
  "parse_difficulty_ratios [Some 50, Some 15, Some 20, Some 15] 300 = Inr default_difficulties"
  by (simp add: parse_difficulty_ratios_def DIFFICULTIES_def DIFFICULTY_BOUNDS_def py_int_def
        default_difficulties_def)

lemma pairs_3: "pairs 3 = [(0, 1), (0, 2), (1, 2)]"
  by (simp add: pairs_def upt_rec)

lemma line_candidates_filtered: "candidates_of (pairs 3) [2, 4, 2] 1 3 = line_candidates"
  by (simp add: pairs_3 candidates_of_def line_candidates_def)

lemma next_leg_line:
  "next_leg line_sim line_pts (nxt_candidates_of line_candidates 1) 1 3 1 (sconst 0)
     = Some (Inr ((2, 2, (2, 0, 0), (4, 0, 0), Fin (12 / 5)), sconst 0))"
  by (simp add: next_leg.simps line_eval)

lemma euclidean_line: "euclidean (x, 0, 0) (y, 0, 0) = \<bar>x - y\<bar>"
  by (simp add: euclidean_def)

lemma pairwise_distance_line: "pairwise_distance line_pts = Inr [2, 4, 2]"
  by (simp add: pairwise_distance_def line_pts_def pairs_def upt_rec euclidean_line)

lemma sample_points_line: "sample_points line_sim 0 3 0 = Some (line_pts, 3)"
  by (simp add: numeral_3_eq_3 sample_point_def sample_point_loop.simps line_sim_def
        MIN_ISLAND_RADIUS_def EPS_def line_pts_def)

lemma parse_demo:
  "parse_difficulty_ratios [Some 1, Some 0, Some 0, Some 0] 1 = Inr demo_difficulties"
  by (simp add: parse_difficulty_ratios_def DIFFICULTIES_def DIFFICULTY_BOUNDS_def py_int_def
        demo_difficulties_def)

lemma prepare_demo:
  "prepare demo_args line_sim 7 = Some (Inr (demo_difficulties, line_pts, pairs 3, [2, 4, 2]))"
proof -
  have s: "sim_seed line_sim 42 7 = 0" "fst (snd (agent_position line_sim 7)) = 0"
    by (simp_all add: line_sim_def)
  show ?thesis
    by (simp add: prepare_def demo_args_def parse_demo s sample_points_line pairwise_distance_line)
qed

lemma episode_legs_back:
  "episode_legs line_sim line_pts line_candidates 1 3 2 (sconst 1) = Some (Inr (back_frame2, sconst 1))"
  by (simp add: episode_legs_def chain_step_def first_leg.simps next_leg.simps line_eval
        back_frame2_def numeral_2_eq_2)

lemma py_str_0: "py_str 0 = ''0''"
  by code_simp

lemma py_str_12: "py_str 12 = ''12''"
  by code_simp

lemma candidates_other_buckets:
  "candidates_of (pairs 3) [2, 4, 2] 3 7 = [((0, 2), 4)]"
  "candidates_of (pairs 3) [2, 4, 2] 7 13 = []"
  "candidates_of (pairs 3) [2, 4, 2] 13 20 = []"
  by (simp_all add: pairs_3 candidates_of_def)

subsection \<open>Chaining (claim C5)\<close>

text \<open>
  Claim C5.  An episode with \<open>k + 1\<close> goals is the episode with \<open>k\<close> goals followed by one
  more chained leg.  That leg starts at the destination of leg \<open>k\<close>, the point with index
  \<open>last\<close>; the pair it was drawn from is a candidate of the bucket that has \<open>last\<close> as one
  endpoint and the new destination index as the other, in either stored orientation; its
  destination is appended to the goal list, and its distance is the geodesic distance from
  the previous destination to the new one.
\<close>

theorem chained_leg_continues_path:
  assumes "1 \<le> k"
    and "episode_legs sim nav_pts candidates min_d max_d k g = Some (Inr (v, g1))"
    and "episode_legs sim nav_pts candidates min_d max_d (k + 1) g = Some (Inr (v', g2))"
  shows "v_src v' = v_dst v
       \<and> v_dst v = nav_pts ! v_last v
       \<and> v_dst v' = nav_pts ! v_last v'
       \<and> (((v_last v, v_last v'), v_euc_d v') \<in> set candidates
            \<or> ((v_last v', v_last v), v_euc_d v') \<in> set candidates)
       \<and> v_destinations v' = v_destinations v @ [v_dst v']
       \<and> v_d v' = geodesic_distance sim (v_dst v) (v_dst v')"
proof -
  have step: "chain_step sim nav_pts candidates min_d max_d v g1 = Some (Inr (v', g2))"
    using assms(3) by (simp add: episode_legs_Suc [OF assms(1)] assms(2))
  have inv: "frame_inv nav_pts v"
    using assms(2) by (rule episode_legs_inv)
  note p = chain_step_post [OF step]
  have src: "v_src v' = v_dst v"
    using p(1) frame_invD(3) [OF inv] by simp
  note d1 = frame_invD(3) [OF inv]
  have d: "v_d v' = geodesic_distance sim (v_dst v) (v_dst v')"
    using p(6) src by simp
  show ?thesis
    by (intro conjI src d1 p(2) p(8) p(4) d)
qed

text \<open>The run that always draws index 0, with one and with two goals.\<close>

theorem chained_leg_continues_path_witness:
  "(1::int) \<le> 1
   \<and> episode_legs line_sim line_pts line_candidates 1 3 1 (sconst 0) = Some (Inr (line_frame1, sconst 0))
   \<and> episode_legs line_sim line_pts line_candidates 1 3 (1 + 1) (sconst 0) = Some (Inr (line_frame2, sconst 0))
   \<and> v_src line_frame2 = v_dst line_frame1
   \<and> v_dst line_frame1 = line_pts ! v_last line_frame1
   \<and> v_dst line_frame2 = line_pts ! v_last line_frame2
   \<and> (((v_last line_frame1, v_last line_frame2), v_euc_d line_frame2) \<in> set line_candidates
        \<or> ((v_last line_frame2, v_last line_frame1), v_euc_d line_frame2) \<in> set line_candidates)
   \<and> v_destinations line_frame2 = v_destinations line_frame1 @ [v_dst line_frame2]
   \<and> v_d line_frame2 = geodesic_distance line_sim (v_dst line_frame1) (v_dst line_frame2)"
  using chained_leg_continues_path [of 1 line_sim line_pts line_candidates 1 3 "sconst 0"
      line_frame1 "sconst 0" line_frame2 "sconst 0"]
    episode_legs_line_1 episode_legs_line_2
  by simp

subsection \<open>The start position handed to \<open>make_episode\<close> (claim C10)\<close>



text \<open>In that run the first leg started at \<open>(0, 0, 0)\<close>; the start position handed over is \<open>(2, 0, 0)\<close>.\<close>

lemma first_leg_source_overwritten:
  "first_leg line_sim line_pts line_candidates 1 3 (sconst 0)
     = Some (Inr ((0, 1, 2, (0, 0, 0), (2, 0, 0), Fin (12 / 5)), sconst 0))
   \<and> episode_legs line_sim line_pts line_candidates 1 3 2 (sconst 0) = Some (Inr (line_frame2, sconst 0))
   \<and> v_src line_frame2 = (2, 0, 0)"
  by (simp add: first_leg_line episode_legs_line_2) (simp add: line_frame2_def)

subsection \<open>The number of goals (claim C8)\<close>

text \<open>
  Claim C8, as amended.  The goal list that \<open>make_episode\<close> builds for an episode has
  \<open>max(1, n_goals_per_ep)\<close> entries: as many as configured when that number is at least 1,
  and one goal, that of the first leg, when it is 0 or negative.
\<close>

theorem goal_count_is_max_1:
  assumes "episode_legs sim nav_pts candidates min_d max_d n g = Some (Inr (v, g'))"
  shows "length (goals (fst (make_episode_local ep_id scene (v_src v) (v_destinations v)
                               success_dist k (v_tot_d v) g')))
           = nat (max 1 n)"
proof -
  have "Suc (nat (n - 1)) = nat (max 1 n)"
    by linarith
  then have "length (v_destinations v) = nat (max 1 n)"
    using episode_legs_length [OF assms] by simp
  then show ?thesis
    by (simp add: make_episode_local_def Let_def split: prod.splits)
qed

text \<open>Two goals configured, two goals built.\<close>

theorem goal_count_is_max_1_witness:
  "episode_legs line_sim line_pts line_candidates 1 3 2 (sconst 0) = Some (Inr (line_frame2, sconst 0))
   \<and> length (goals (fst (make_episode_local ''0'' ''scene'' (v_src line_frame2)
                 (v_destinations line_frame2) (1 / 5) ''very easy'' (v_tot_d line_frame2) (sconst 0))))
       = nat (max 1 2)"
  using goal_count_is_max_1 [of line_sim line_pts line_candidates 1 3 2 "sconst 0"
      line_frame2 "sconst 0" "''0''" "''scene''" "1 / 5" "''very easy''"]
    episode_legs_line_2
  by simp

text \<open>
  Claim C8 as stated fails when 0 goals per episode are configured: the first leg is
  drawn all the same, and the episode gets one goal.
\<close>

theorem goal_count_counterexample:
  "episode_legs line_sim line_pts line_candidates 1 3 0 (sconst 0) = Some (Inr (line_frame1, sconst 0))
   \<and> int (length (goals (fst (make_episode_local ''0'' ''scene'' (v_src line_frame1)
                 (v_destinations line_frame1) (1 / 5) ''very easy'' (v_tot_d line_frame1) (sconst 0)))))
       \<noteq> 0"
  by (simp add: episode_legs_line_0) (simp add: make_episode_local_def random_random_def line_frame1_def)

subsection \<open>Target counts (claim C3)\<close>


lemma four_ratios:
  assumes "length rs = 4"
  obtains r1 r2 r3 r4 where "rs = [r1, r2, r3, r4]"
proof -
  from assms obtain r1 t1 where 1: "rs = r1 # t1" "length t1 = 3"
    by (cases rs) auto
  then obtain r2 t2 where 2: "t1 = r2 # t2" "length t2 = 2"
    by (cases t1) auto
  then obtain r3 t3 where 3: "t2 = r3 # t3" "length t3 = 1"
    by (cases t2) auto
  then obtain r4 where 4: "t3 = [r4]"
    by (cases t3) auto
  show ?thesis using that 1 2 3 4 by simp
qed




subsection \<open>The invalid-ratios error (claim C7)\<close>





subsection \<open>The acceptance test on special values\<close>

lemma reject_NaN: "reject NaN min_d max_d euc_d = False"
  by (simp add: reject_def fgreater_def)

lemma reject_infinite: "reject PInf min_d max_d euc_d" "reject NInf min_d max_d euc_d"
  by (simp_all add: reject_def fgreater_def)

lemma reject_negative: "0 \<le> min_d \<Longrightarrow> x < 0 \<Longrightarrow> reject (Fin x) min_d max_d euc_d"
  by (simp add: reject_def)

lemma not_reject_bounds:
  assumes "\<not> reject d min_d max_d euc_d" and "d \<noteq> NaN" and "0 < euc_d"
  shows "fle (Fin min_d) d \<and> fle d (Fin max_d) \<and> fge (fdiv d euc_d) (Fin MIN_DIST_RATIO)"
  using assms by (cases d) (auto simp: reject_def fgreater_def fge_def)

lemma nan_sim_geodesic: "geodesic_distance nan_sim p q = NaN"
  by (simp add: nan_sim_def)

lemma bucket_bounds:
  assumes "parse_difficulty_ratios tokens n = Inr ds" and "(k, n_ep, min_d, max_d) \<in> set ds"
  shows "(min_d, max_d) \<in> {(1, 3), (3, 7), (7, 13), (13, 20)}"
proof -
  define rs where "rs = map the tokens"
  have len: "length rs = 4"
    using assms(1) unfolding parse_difficulty_ratios_def rs_def Let_def
    by (auto split: if_splits)
  obtain r1 r2 r3 r4 where rs: "rs = [r1, r2, r3, r4]"
    using len by (rule four_ratios)
  have "ds = map (\<lambda>(k, r, min_d, max_d). (k, py_int (r * real_of_int n / sum_list rs), min_d, max_d))
                 (zip DIFFICULTIES (zip rs (zip (butlast DIFFICULTY_BOUNDS) (tl DIFFICULTY_BOUNDS))))"
    using assms(1) unfolding parse_difficulty_ratios_def rs_def Let_def
    by (auto split: if_splits)
  then show ?thesis
    using assms(2) by (auto simp: rs DIFFICULTIES_def DIFFICULTY_BOUNDS_def)
qed

lemma bucket_min_positive:
  assumes "parse_difficulty_ratios tokens n = Inr ds" and "(k, n_ep, min_d, max_d) \<in> set ds"
  shows "1 \<le> min_d"
  using bucket_bounds [OF assms] by auto

lemma candidate_distance_positive:
  assumes "(p, e) \<in> set (candidates_of prs euc_dists min_d max_d)" and "1 \<le> min_d"
  shows "0 < e"
  using assms by (auto simp: candidates_of_def)

text \<open>
  Claim C4, as amended.  In a bucket of the parsed ratios, with the candidates of that
  bucket, a leg that leaves the first loop or the chained loop with a distance that is a
  number (not NaN) has \<open>min_d <= d <= max_d\<close> and \<open>d / euc_d >= MIN_DIST_RATIO\<close>, where
  \<open>d\<close> is the geodesic distance between its two points.
\<close>

theorem accepted_leg_within_bounds:
  assumes "parse_difficulty_ratios tokens n = Inr ds"
    and "(k, n_ep, min_d, max_d) \<in> set ds"
    and "candidates = candidates_of prs euc_dists min_d max_d"
  shows "(first_leg sim nav_pts candidates min_d max_d g
            = Some (Inr ((i, j, euc_d, src, dst, d), g')) \<and> d \<noteq> NaN
          \<longrightarrow> d = geodesic_distance sim src dst \<and> fle (Fin min_d) d \<and> fle d (Fin max_d)
              \<and> fge (fdiv d euc_d) (Fin MIN_DIST_RATIO))
       \<and> (next_leg sim nav_pts (nxt_candidates_of candidates lst) min_d max_d lst h
            = Some (Inr ((j', euc_d', src', dst', d'), h')) \<and> d' \<noteq> NaN
          \<longrightarrow> d' = geodesic_distance sim src' dst' \<and> fle (Fin min_d) d' \<and> fle d' (Fin max_d)
              \<and> fge (fdiv d' euc_d') (Fin MIN_DIST_RATIO))"
proof (intro conjI impI)
  note m = bucket_min_positive [OF assms(1,2)]
  {
    assume a: "first_leg sim nav_pts candidates min_d max_d g
                = Some (Inr ((i, j, euc_d, src, dst, d), g')) \<and> d \<noteq> NaN"
    then have f: "first_leg sim nav_pts candidates min_d max_d g
                = Some (Inr ((i, j, euc_d, src, dst, d), g'))" and nn: "d \<noteq> NaN"
      by simp_all
    note p = first_leg_post [OF f]
    have pos: "0 < euc_d"
      using p(1) m unfolding assms(3) by (rule candidate_distance_positive)
    note b = not_reject_bounds [OF p(7) nn pos]
    show "d = geodesic_distance sim src dst" by (rule p(6))
    show "fle (Fin min_d) d" using b by simp
    show "fle d (Fin max_d)" using b by simp
    show "fge (fdiv d euc_d) (Fin MIN_DIST_RATIO)" using b by simp
  }
  {
    assume a: "next_leg sim nav_pts (nxt_candidates_of candidates lst) min_d max_d lst h
                = Some (Inr ((j', euc_d', src', dst', d'), h')) \<and> d' \<noteq> NaN"
    then have f: "next_leg sim nav_pts (nxt_candidates_of candidates lst) min_d max_d lst h
                = Some (Inr ((j', euc_d', src', dst', d'), h'))" and nn: "d' \<noteq> NaN"
      by simp_all
    note p = next_leg_post [OF f]
    have "((lst, j'), euc_d') \<in> set candidates \<or> ((j', lst), euc_d') \<in> set candidates"
      using p(1) by (rule nxt_candidates_mem)
    then have pos: "0 < euc_d'"
      using m candidate_distance_positive unfolding assms(3) by blast
    note b = not_reject_bounds [OF p(7) nn pos]
    show "d' = geodesic_distance sim src' dst'" by (rule p(6))
    show "fle (Fin min_d) d'" using b by simp
    show "fle d' (Fin max_d)" using b by simp
    show "fge (fdiv d' euc_d') (Fin MIN_DIST_RATIO)" using b by simp
  }
qed

text \<open>The first leg and the chained leg of the run that always draws index 0.\<close>

theorem accepted_leg_within_bounds_witness:
  "parse_difficulty_ratios [Some 50, Some 15, Some 20, Some 15] 300 = Inr default_difficulties
   \<and> (''very easy'', 150, 1, 3) \<in> set default_difficulties
   \<and> line_candidates = candidates_of (pairs 3) [2, 4, 2] 1 3
   \<and> first_leg line_sim line_pts line_candidates 1 3 (sconst 0)
        = Some (Inr ((0, 1, 2, (0, 0, 0), (2, 0, 0), Fin (12 / 5)), sconst 0))
   \<and> next_leg line_sim line_pts (nxt_candidates_of line_candidates 1) 1 3 1 (sconst 0)
        = Some (Inr ((2, 2, (2, 0, 0), (4, 0, 0), Fin (12 / 5)), sconst 0))
   \<and> Fin (12 / 5) \<noteq> NaN
   \<and> Fin (12 / 5) = geodesic_distance line_sim (0, 0, 0) (2, 0, 0)
   \<and> Fin (12 / 5) = geodesic_distance line_sim (2, 0, 0) (4, 0, 0)
   \<and> fle (Fin 1) (Fin (12 / 5)) \<and> fle (Fin (12 / 5)) (Fin 3)
   \<and> fge (fdiv (Fin (12 / 5)) 2) (Fin MIN_DIST_RATIO)"
  using accepted_leg_within_bounds [where tokens = "[Some 50, Some 15, Some 20, Some 15]"
      and n = 300 and ds = default_difficulties and k = "''very easy''" and n_ep = 150
      and min_d = 1 and max_d = 3 and candidates = line_candidates and prs = "pairs 3"
      and euc_dists = "[2, 4, 2]" and sim = line_sim and nav_pts = line_pts
      and g = "sconst 0" and i = 0 and j = 1 and euc_d = 2 and src = "(0, 0, 0)"
      and dst = "(2, 0, 0)" and d = "Fin (12 / 5)" and g' = "sconst 0"
      and lst = 1 and h = "sconst 0" and j' = 2 and euc_d' = 2 and src' = "(2, 0, 0)"
      and dst' = "(4, 0, 0)" and d' = "Fin (12 / 5)" and h' = "sconst 0"]
    parse_default line_candidates_filtered first_leg_line next_leg_line
  by (simp add: default_difficulties_def line_sim_def MIN_DIST_RATIO_def fge_def)

text \<open>
  Claim C4 as stated fails when the simulator answers NaN: all three comparisons of the
  loop condition are false, the first leg is accepted, and none of the three conditions
  of the claim holds of it.
\<close>

theorem nan_leg_accepted_first:
  "first_leg nan_sim line_pts line_candidates 1 3 (sconst 0)
     = Some (Inr ((0, 1, 2, (0, 0, 0), (2, 0, 0), NaN), sconst 0))
   \<and> \<not> fle (Fin 1) NaN \<and> \<not> fle NaN (Fin 3) \<and> \<not> fge (fdiv NaN 2) (Fin MIN_DIST_RATIO)"
  by (simp add: first_leg.simps nan_sim_geodesic reject_NaN random_choice_def line_pts_def
        line_candidates_def fge_def)

text \<open>
  Claim C6, as amended.  In a bucket of the parsed ratios, a geodesic distance that is
  \<open>+inf\<close>, \<open>-inf\<close> or negative makes the loop condition true: the loop that drew the
  sample goes on from the next state of the generator exactly as if it had started there,
  without an error, and no leg with such a distance ever leaves either loop.
\<close>

theorem infinite_or_negative_distance_redrawn:
  assumes "parse_difficulty_ratios tokens n = Inr ds"
    and "(k, n_ep, min_d, max_d) \<in> set ds"
    and "infinite_or_negative d"
  shows "reject d min_d max_d euc_d
       \<and> (random_choice candidates g = Inr (((i, j), euc_d), g')
            \<and> i < length nav_pts \<and> j < length nav_pts
            \<and> geodesic_distance sim (nav_pts ! i) (nav_pts ! j) = d
          \<longrightarrow> first_leg sim nav_pts candidates min_d max_d g
                = first_leg sim nav_pts candidates min_d max_d g')
       \<and> (random_choice nxt h = Inr ((j', euc_d), h')
            \<and> lst < length nav_pts \<and> j' < length nav_pts
            \<and> geodesic_distance sim (nav_pts ! lst) (nav_pts ! j') = d
          \<longrightarrow> next_leg sim nav_pts nxt min_d max_d lst h
                = next_leg sim nav_pts nxt min_d max_d lst h')
       \<and> first_leg sim nav_pts candidates min_d max_d g0
            \<noteq> Some (Inr ((i0, j0, e0, src0, dst0, d), g1))
       \<and> next_leg sim nav_pts nxt min_d max_d lst h0
            \<noteq> Some (Inr ((j1, e1, src1, dst1, d), h1))"
proof -
  note m = bucket_min_positive [OF assms(1,2)]
  have rej: "reject d min_d max_d e" for e
  proof (cases d)
    case (Fin x)
    with assms(3) m show ?thesis by (simp add: reject_negative)
  qed (use assms(3) in \<open>simp_all add: reject_infinite\<close>)
  have a: "first_leg sim nav_pts candidates min_d max_d g
             = first_leg sim nav_pts candidates min_d max_d g'"
    if "random_choice candidates g = Inr (((i, j), euc_d), g')
          \<and> i < length nav_pts \<and> j < length nav_pts
          \<and> geodesic_distance sim (nav_pts ! i) (nav_pts ! j) = d"
    using that rej [of euc_d] by (subst first_leg.simps) simp
  have b: "next_leg sim nav_pts nxt min_d max_d lst h
             = next_leg sim nav_pts nxt min_d max_d lst h'"
    if "random_choice nxt h = Inr ((j', euc_d), h')
          \<and> lst < length nav_pts \<and> j' < length nav_pts
          \<and> geodesic_distance sim (nav_pts ! lst) (nav_pts ! j') = d"
    using that rej [of euc_d] by (subst next_leg.simps) simp
  have c: "first_leg sim nav_pts candidates min_d max_d g0
             \<noteq> Some (Inr ((i0, j0, e0, src0, dst0, d), g1))"
    using first_leg_post(7) rej [of e0] by blast
  have e: "next_leg sim nav_pts nxt min_d max_d lst h0
             \<noteq> Some (Inr ((j1, e1, src1, dst1, d), h1))"
    using next_leg_post(7) rej [of e1] by blast
  show ?thesis using rej [of euc_d] a b c e by blast
qed

lemma wall_sim_geodesic:
  "geodesic_distance wall_sim p q
     = (if fst p = 0 \<or> fst q = 0 then PInf else Fin (12 / 10 * \<bar>fst p - fst q\<bar>))"
  by (simp add: wall_sim_def)

lemma first_leg_wall:
  "first_leg wall_sim line_pts line_candidates 1 3 (sconst 1)
     = Some (Inr ((1, 2, 2, (2, 0, 0), (4, 0, 0), Fin (12 / 5)), sconst 1))"
  by (simp add: first_leg.simps wall_sim_geodesic random_choice_def reject_def fgreater_def
        MIN_DIST_RATIO_def line_pts_def line_candidates_def)

lemma next_leg_wall:
  "next_leg wall_sim line_pts (nxt_candidates_of line_candidates 1) 1 3 1 (sconst 0)
     = Some (Inr ((2, 2, (2, 0, 0), (4, 0, 0), Fin (12 / 5)), sconst 0))"
  by (simp add: next_leg.simps wall_sim_geodesic random_choice_def reject_def fgreater_def
        MIN_DIST_RATIO_def line_pts_def line_candidates_def nxt_candidates_of_def)

text \<open>
  In the corridor with the wall, a first draw of the pair (0, 1) and a chained draw of the
  way back to point 0 both measure \<open>+inf\<close>; the loops draw again and accept the pair
  (1, 2).
\<close>

theorem infinite_or_negative_distance_redrawn_witness:
  "parse_difficulty_ratios [Some 50, Some 15, Some 20, Some 15] 300 = Inr default_difficulties
   \<and> (''very easy'', 150, 1, 3) \<in> set default_difficulties
   \<and> infinite_or_negative PInf
   \<and> reject PInf 1 3 2
   \<and> random_choice line_candidates (0 ## sconst 1) = Inr (((0, 1), 2), sconst 1)
   \<and> geodesic_distance wall_sim (line_pts ! 0) (line_pts ! 1) = PInf
   \<and> first_leg wall_sim line_pts line_candidates 1 3 (0 ## sconst 1)
        = first_leg wall_sim line_pts line_candidates 1 3 (sconst 1)
   \<and> first_leg wall_sim line_pts line_candidates 1 3 (sconst 1)
        = Some (Inr ((1, 2, 2, (2, 0, 0), (4, 0, 0), Fin (12 / 5)), sconst 1))
   \<and> random_choice (nxt_candidates_of line_candidates 1) (1 ## sconst 0) = Inr ((0, 2), sconst 0)
   \<and> geodesic_distance wall_sim (line_pts ! 1) (line_pts ! 0) = PInf
   \<and> next_leg wall_sim line_pts (nxt_candidates_of line_candidates 1) 1 3 1 (1 ## sconst 0)
        = next_leg wall_sim line_pts (nxt_candidates_of line_candidates 1) 1 3 1 (sconst 0)
   \<and> next_leg wall_sim line_pts (nxt_candidates_of line_candidates 1) 1 3 1 (sconst 0)
        = Some (Inr ((2, 2, (2, 0, 0), (4, 0, 0), Fin (12 / 5)), sconst 0))"
proof -
  have r1: "random_choice line_candidates (0 ## sconst 1) = Inr (((0, 1), 2), sconst 1)"
    by (simp add: random_choice_def line_candidates_def)
  have r2: "random_choice (nxt_candidates_of line_candidates 1) (1 ## sconst 0) = Inr ((0, 2), sconst 0)"
    by (simp add: random_choice_def line_candidates_def nxt_candidates_of_def)
  have d1: "geodesic_distance wall_sim (line_pts ! 0) (line_pts ! 1) = PInf"
    by (simp add: wall_sim_geodesic line_pts_def)
  have d2: "geodesic_distance wall_sim (line_pts ! 1) (line_pts ! 0) = PInf"
    by (simp add: wall_sim_geodesic line_pts_def)
  have m: "(''very easy'', 150, 1, 3) \<in> set default_difficulties"
    by (simp add: default_difficulties_def)
  have len: "0 < length line_pts" "1 < length line_pts"
    by (simp_all add: line_pts_def)
  note t = infinite_or_negative_distance_redrawn [OF parse_default m, of PInf 2 line_candidates
      "0 ## sconst 1" 0 1 "sconst 1" line_pts wall_sim
      "nxt_candidates_of line_candidates 1" "1 ## sconst 0" 0 "sconst 0" 1]
  show ?thesis
    using t r1 r2 d1 d2 m len parse_default first_leg_wall next_leg_wall by simp
qed

text \<open>
  Claim C6 as stated fails for NaN: both loops accept the NaN distance instead of
  drawing again, and the accumulated distance of the episode is NaN.
\<close>

theorem nan_distance_not_rejected:
  "episode_legs nan_sim line_pts line_candidates 1 3 2 (sconst 0) = Some (Inr (nan_frame2, sconst 0))"
  by (simp add: episode_legs_def chain_step_def first_leg.simps next_leg.simps nan_sim_geodesic
        reject_NaN random_choice_def line_pts_def line_candidates_def nxt_candidates_of_def
        nan_frame2_def numeral_2_eq_2)

subsection \<open>The candidates of a bucket (claim C9)\<close>






subsection \<open>What is appended to the dataset (claim C1)\<close>

lemma make_episode_None:
  "fst (make_episode ep_id scene src destinations success_dist difficulty geo_dist g) = None"
  by (simp add: make_episode_def split: prod.splits)

lemma make_episode_result:
  "\<exists>g'. make_episode ep_id scene src destinations success_dist difficulty geo_dist g = (None, g')"
  by (simp add: make_episode_def split: prod.splits)

lemma episodes_loop_None:
  "episodes_loop cfg sim nav_pts candidates k min_d max_d n_goals n st g = Some (Inr (st', g'))
   \<Longrightarrow> list_all (\<lambda>e. e = None) (snd st) \<Longrightarrow> list_all (\<lambda>e. e = None) (snd st')"
proof (induction n arbitrary: st g)
  case 0
  then show ?case by simp
next
  case (Suc n)
  from Suc.prems(1) obtain v g1 where
    e: "episode_legs sim nav_pts candidates min_d max_d n_goals g = Some (Inr (v, g1))"
    by (auto split: option.splits sum.splits)
  obtain g2 where mk: "make_episode (py_str (fst st)) (SCENE cfg) (v_src v) (v_destinations v)
      (SUCCESS_DISTANCE cfg) k (v_tot_d v) g1 = (None, g2)"
    using make_episode_result by blast
  have r: "episodes_loop cfg sim nav_pts candidates k min_d max_d n_goals n
             (fst st + 1, snd st @ [None]) g2 = Some (Inr (st', g'))"
    using Suc.prems(1) by (simp add: e mk)
  show ?case
    using Suc.IH [OF r] Suc.prems(2) by simp
qed

lemma buckets_loop_None:
  "buckets_loop cfg sim nav_pts prs euc_dists n_goals ds st g = Some (Inr (st', g'))
   \<Longrightarrow> list_all (\<lambda>e. e = None) (snd st) \<Longrightarrow> list_all (\<lambda>e. e = None) (snd st')"
proof (induction ds arbitrary: st g)
  case Nil
  then show ?case by simp
next
  case (Cons b ds)
  obtain k n_ep min_d max_d where b: "b = (k, n_ep, min_d, max_d)"
    by (metis prod.exhaust)
  from Cons.prems(1) obtain st1 g1 where
    e: "episodes_loop cfg sim nav_pts (candidates_of prs euc_dists min_d max_d) k min_d max_d
          n_goals (nat n_ep) st g = Some (Inr (st1, g1))"
    and r: "buckets_loop cfg sim nav_pts prs euc_dists n_goals ds st1 g1 = Some (Inr (st', g'))"
    unfolding b by (auto split: option.splits sum.splits)
  show ?case
    using Cons.IH [OF r episodes_loop_None [OF e Cons.prems(2)]] .
qed

text \<open>Whatever the run, every entry of the list that \<open>main\<close> serialises is \<open>None\<close>.\<close>

lemma main_appends_only_None:
  assumes "main a cfg sim s g = Some (Inr episodes)"
  shows "list_all (\<lambda>e. e = None) episodes"
proof -
  from assms obtain ds nav_pts prs euc_dists st g' where
    b: "buckets_loop cfg sim nav_pts prs euc_dists (n_goals_per_ep a) ds (0, []) g
          = Some (Inr (st, g'))"
    and e: "episodes = snd st"
    by (auto simp: main_def split: option.splits sum.splits)
  show ?thesis
    using buckets_loop_None [OF b] e by simp
qed

text \<open>
  Claim C1 fails on the code.  In the run of one episode with two goals, \<open>make_episode\<close>
  does build the record with the id, the scene, the start position, the yaw-only rotation,
  the two goals, the difficulty and the accumulated distance, but its call evaluates to
  \<open>None\<close>, and \<open>None\<close> is what the dataset holds.
\<close>

theorem dataset_holds_None:
  "main demo_args demo_cfg line_sim 7 (sconst 0) = Some (Inr [None])
   \<and> episode_legs line_sim line_pts line_candidates 1 3 2 (sconst 0)
        = Some (Inr (line_frame2, sconst 0))
   \<and> make_episode_local (py_str 0) (SCENE demo_cfg) (v_src line_frame2) (v_destinations line_frame2)
        (SUCCESS_DISTANCE demo_cfg) ''very easy'' (v_tot_d line_frame2) (sconst 0)
      = (\<lparr>episode_id = ''0'', scene_id = ''scene'', start_position = (2, 0, 0),
           start_rotation = [0, 0, 0, 1],
           goals = [\<lparr>position = (2, 0, 0), radius = 1 / 5\<rparr>,
                    \<lparr>position = (4, 0, 0), radius = 1 / 5\<rparr>],
           info_difficulty = ''very easy'', info_geodesic_distance = Fin (24 / 5)\<rparr>, sconst 0)
   \<and> make_episode (py_str 0) (SCENE demo_cfg) (v_src line_frame2) (v_destinations line_frame2)
        (SUCCESS_DISTANCE demo_cfg) ''very easy'' (v_tot_d line_frame2) (sconst 0)
      = (None, sconst 0)"
proof -
  have loc: "make_episode_local (py_str 0) (SCENE demo_cfg) (v_src line_frame2)
        (v_destinations line_frame2) (SUCCESS_DISTANCE demo_cfg) ''very easy''
        (v_tot_d line_frame2) (sconst 0)
      = (\<lparr>episode_id = ''0'', scene_id = ''scene'', start_position = (2, 0, 0),
           start_rotation = [0, 0, 0, 1],
           goals = [\<lparr>position = (2, 0, 0), radius = 1 / 5\<rparr>,
                    \<lparr>position = (4, 0, 0), radius = 1 / 5\<rparr>],
           info_difficulty = ''very easy'', info_geodesic_distance = Fin (24 / 5)\<rparr>, sconst 0)"
    by (simp add: py_str_0 make_episode_local_def random_random_def demo_cfg_def line_frame2_def)
  have mk: "make_episode (py_str 0) (SCENE demo_cfg) (v_src line_frame2)
        (v_destinations line_frame2) (SUCCESS_DISTANCE demo_cfg) ''very easy''
        (v_tot_d line_frame2) (sconst 0) = (None, sconst 0)"
    by (simp only: make_episode_def loc prod.case)
  have m: "main demo_args demo_cfg line_sim 7 (sconst 0) = Some (Inr [None])"
  proof -
    have ng: "n_goals_per_ep demo_args = 2" by (simp add: demo_args_def)
    show ?thesis
      by (simp add: main_def prepare_demo demo_difficulties_def line_candidates_filtered
            candidates_other_buckets episode_legs_line_2 mk ng)
  qed
  show ?thesis using m episode_legs_line_2 loc mk by simp
qed

subsection \<open>The seed and the draws (claim C2)\<close>

text \<open>
  Claim C2 fails on the code.  \<open>args.seed\<close> reaches the simulator only; the pairs are drawn
  from Python's global generator, which the script never seeds.  With the same seed, the
  same scene and the same parameters, two states of that generator give the episode
  different legs: from point 0 over point 1 to point 2 in one run, from point 1 to point 2
  and back in the other.
\<close>

theorem same_seed_different_draws:
  "seed demo_args = 42
   \<and> prepare demo_args line_sim 7 = Some (Inr (demo_difficulties, line_pts, pairs 3, [2, 4, 2]))
   \<and> candidates_of (pairs 3) [2, 4, 2] 1 3 = line_candidates
   \<and> episode_legs line_sim line_pts line_candidates 1 3 (n_goals_per_ep demo_args) (sconst 0)
        = Some (Inr (line_frame2, sconst 0))
   \<and> episode_legs line_sim line_pts line_candidates 1 3 (n_goals_per_ep demo_args) (sconst 1)
        = Some (Inr (back_frame2, sconst 1))
   \<and> v_src line_frame2 \<noteq> v_src back_frame2
   \<and> v_destinations line_frame2 \<noteq> v_destinations back_frame2"
proof -
  have a: "seed demo_args = 42" "n_goals_per_ep demo_args = 2"
    by (simp_all add: demo_args_def)
  have d: "v_src line_frame2 \<noteq> v_src back_frame2"
    "v_destinations line_frame2 \<noteq> v_destinations back_frame2"
    by (simp_all add: line_frame2_def back_frame2_def)
  show ?thesis
    using a d prepare_demo line_candidates_filtered episode_legs_line_2 episode_legs_back
    by simp
qed

end
